theory Spec2Isabelle
  imports Complex_Main
begin

section \<open>The fare prediction pipeline of app.py\<close>

text \<open>
  The development embeds the prediction pipeline of \<^verbatim>\<open>app.py\<close>: the haversine
  distance, the feature vector, the model cache \<^verbatim>\<open>_models\<close> with \<^verbatim>\<open>load_model\<close>,
  \<^verbatim>\<open>get_model_info\<close>, and the two routes \<^verbatim>\<open>predict\<close> and \<^verbatim>\<open>batch_predict\<close>.

  Conventions of the embedding:
  \<^item> a JSON object is a map from keys to values; \<^verbatim>\<open>k not in data\<close> is \<open>data k = None\<close>,
    so a key that is present with the value \<^verbatim>\<open>null\<close> counts as present, as in Python;
  \<^item> the values of the five trip fields are the scalar JSON values; the optional
    \<^verbatim>\<open>model\<close> entry is a model identifier, a string;
  \<^item> Python floats are idealised as real numbers; the value a model returns may in
    addition be an infinity or NaN;
  \<^item> everything outside the file is a parameter: \<^verbatim>\<open>pd.to_datetime\<close>, the contents of the
    model directory, and the regressors stored there;
  \<^item> the module-level dictionary \<^verbatim>\<open>_models\<close> is passed in and returned;
  \<^item> a raised exception is a value of type \<open>exn\<close>; \<^verbatim>\<open>str(e)\<close> is kept symbolic.
\<close>

subsection \<open>Values, requests and responses\<close>

datatype jval = JNull | JBool bool | JNum real | JStr string

record request =
  entries :: "string \<rightharpoonup> jval"
  model :: "string option"

record batch_request =
  predictions :: "request list option"

text \<open>What the code reads of a parsed pandas timestamp.\<close>

record timestamp =
  hour :: int
  dayofweek :: int
  month :: int
  year :: int

datatype pyfloat = Fin real | PosInf | NegInf | NaN

datatype exn =
    KeyError string
  | TypeError
  | DateParseError
  | AttributeError
  | InferenceError string

text \<open>
  A regressor is what \<^verbatim>\<open>model.predict(features)[0]\<close> does with the single row of
  features: it returns the estimate or raises with a message.
\<close>

type_synonym regressor = "real list \<Rightarrow> string + pyfloat"

type_synonym cache = "string \<rightharpoonup> regressor"

text \<open>
  The world outside the module: \<open>to_datetime\<close> is \<^verbatim>\<open>pd.to_datetime\<close> (\<open>None\<close> when it
  raises); \<open>disk\<close> gives, for a file name under \<^verbatim>\<open>MODEL_DIR\<close>, the regressor that
  \<^verbatim>\<open>joblib.load\<close> returns for it, and \<open>None\<close> when \<^verbatim>\<open>os.path.exists\<close> is false.
\<close>

record env =
  to_datetime :: "jval \<Rightarrow> timestamp option"
  disk :: "string \<Rightarrow> regressor option"

text \<open>The text of an error body: a literal message, or \<^verbatim>\<open>str(e)\<close> of a caught exception.\<close>

datatype message = Text string | StrOf exn

datatype payload =
    Error message
  | Fare pyfloat string real

type_synonym response = "payload \<times> nat"

datatype entry =
    ErrorEntry exn
  | ResultEntry pyfloat string

datatype batch_payload =
    BatchError string
  | Results "entry list"

type_synonym batch_response = "batch_payload \<times> nat"

subsection \<open>Numbers\<close>

text \<open>\<^verbatim>\<open>np.radians\<close> accepts numbers and booleans and raises a TypeError on the rest.\<close>

fun as_float :: "jval \<Rightarrow> real option" where
  "as_float (JNum x) = Some x"
| "as_float (JBool b) = Some (if b then 1 else 0)"
| "as_float (JStr s) = None"
| "as_float JNull = None"

definition radians :: "real \<Rightarrow> real" where
  "radians x = x * pi / 180"

definition arctan2 :: "real \<Rightarrow> real \<Rightarrow> real" where
  "arctan2 y x =
     (if 0 < x then arctan (y / x)
      else if x < 0 then (if 0 \<le> y then arctan (y / x) + pi else arctan (y / x) - pi)
      else if 0 < y then pi / 2
      else if y < 0 then - (pi / 2)
      else 0)"

text \<open>\<^verbatim>\<open>max(0, prediction)\<close>: Python keeps the first argument unless the second is greater.\<close>

fun py_max0 :: "pyfloat \<Rightarrow> pyfloat" where
  "py_max0 (Fin x) = (if 0 < x then Fin x else Fin 0)"
| "py_max0 PosInf = PosInf"
| "py_max0 NegInf = Fin 0"
| "py_max0 NaN = Fin 0"

definition round_half_even :: "real \<Rightarrow> int" where
  "round_half_even y =
     (let f = \<lfloor>y\<rfloor>; d = y - of_int f
      in if d < 1 / 2 then f
         else if 1 / 2 < d then f + 1
         else if even f then f else f + 1)"

text \<open>\<^verbatim>\<open>round(x, 2)\<close> on the idealised numbers.\<close>

definition round2 :: "real \<Rightarrow> real" where
  "round2 x = of_int (round_half_even (x * 100)) / 100"

fun py_round2 :: "pyfloat \<Rightarrow> pyfloat" where
  "py_round2 (Fin x) = Fin (round2 x)"
| "py_round2 PosInf = PosInf"
| "py_round2 NegInf = NegInf"
| "py_round2 NaN = NaN"


subsection \<open>haversine_distance\<close>

text \<open>
  The formula of the source on real numbers, with the radius 6371. The source function
  raises when \<^verbatim>\<open>np.radians\<close> meets a value that is not a number; \<open>haversine_distance\<close>
  is the function on the raw values, \<open>haversine\<close> its arithmetic.
\<close>

definition haversine :: "real \<Rightarrow> real \<Rightarrow> real \<Rightarrow> real \<Rightarrow> real" where
  "haversine lat1d lon1d lat2d lon2d =
     (let R = 6371;
          lat1 = radians lat1d; lon1 = radians lon1d;
          lat2 = radians lat2d; lon2 = radians lon2d;
          dlat = lat2 - lat1;
          dlon = lon2 - lon1;
          a = (sin (dlat / 2))\<^sup>2 + cos lat1 * cos lat2 * (sin (dlon / 2))\<^sup>2;
          c = 2 * arctan2 (sqrt a) (sqrt (1 - a))
      in R * c)"

definition haversine_distance :: "jval \<Rightarrow> jval \<Rightarrow> jval \<Rightarrow> jval \<Rightarrow> exn + real" where
  "haversine_distance lat1 lon1 lat2 lon2 =
     (case (as_float lat1, as_float lon1, as_float lat2, as_float lon2) of
        (Some a, Some b, Some c, Some d) \<Rightarrow> Inr (haversine a b c d)
      | _ \<Rightarrow> Inl TypeError)"

subsection \<open>create_features\<close>

definition is_morning :: "int \<Rightarrow> int" where
  "is_morning h = (if 6 \<le> h \<and> h < 12 then 1 else 0)"

definition is_afternoon :: "int \<Rightarrow> int" where
  "is_afternoon h = (if 12 \<le> h \<and> h < 18 then 1 else 0)"

definition is_evening :: "int \<Rightarrow> int" where
  "is_evening h = (if 18 \<le> h \<and> h < 22 then 1 else 0)"

definition is_night :: "int \<Rightarrow> int" where
  "is_night h = (if 22 \<le> h \<or> h < 6 then 1 else 0)"

definition is_weekend :: "int \<Rightarrow> int" where
  "is_weekend dow = (if 5 \<le> dow then 1 else 0)"

definition is_rush_hour :: "int \<Rightarrow> int" where
  "is_rush_hour h = (if (7 \<le> h \<and> h < 10) \<or> (16 \<le> h \<and> h < 19) then 1 else 0)"

definition is_peak_hour :: "int \<Rightarrow> int" where
  "is_peak_hour h = (if h \<in> set [8, 9, 17, 18, 19, 20] then 1 else 0)"

text \<open>
  The distance is computed first, so a coordinate that is not a number raises before
  the timestamp is parsed. The row has the sixteen entries in the order of the source.
\<close>

definition create_features ::
  "env \<Rightarrow> jval \<Rightarrow> jval \<Rightarrow> jval \<Rightarrow> jval \<Rightarrow> jval \<Rightarrow> exn + real list" where
  "create_features W pickup_lat pickup_lon dropoff_lat dropoff_lon pickup_datetime =
     (case haversine_distance pickup_lat pickup_lon dropoff_lat dropoff_lon of
        Inl e \<Rightarrow> Inl e
      | Inr distance \<Rightarrow>
          (case to_datetime W pickup_datetime of
             None \<Rightarrow> Inl DateParseError
           | Some ts \<Rightarrow>
               (case (as_float pickup_lat, as_float pickup_lon,
                      as_float dropoff_lat, as_float dropoff_lon) of
                  (Some plat, Some plon, Some dlat, Some dlon) \<Rightarrow>
                    Inr [distance, of_int (hour ts), of_int (dayofweek ts),
                         of_int (month ts), of_int (year ts),
                         plat, plon, dlat, dlon,
                         of_int (is_morning (hour ts)), of_int (is_afternoon (hour ts)),
                         of_int (is_evening (hour ts)), of_int (is_night (hour ts)),
                         of_int (is_weekend (dayofweek ts)),
                         of_int (is_rush_hour (hour ts)), of_int (is_peak_hour (hour ts))]
                | _ \<Rightarrow> Inl TypeError)))"

subsection \<open>The model cache\<close>

definition model_file :: "string \<Rightarrow> string" where
  "model_file model_name = model_name @ ''_model.pkl''"

definition load_model :: "(string \<Rightarrow> regressor option) \<Rightarrow> cache \<Rightarrow> string
    \<Rightarrow> regressor option \<times> cache" where
  "load_model dsk models model_name =
     (case models model_name of
        Some m \<Rightarrow> (Some m, models)
      | None \<Rightarrow>
          (case dsk (model_file model_name) of
             Some m \<Rightarrow> (Some m, models(model_name \<mapsto> m))
           | None \<Rightarrow> (None, models)))"

record model_info =
  file_name :: string
  available :: bool
  metrics :: "string \<times> string"

text \<open>The dictionary literal of \<^verbatim>\<open>get_model_info\<close>, in insertion order.\<close>

definition model_table :: "(string \<times> model_info) list" where
  "model_table =
     [(''linear_regression'',
         \<lparr>file_name = ''linear_regression_model.pkl'', available = False,
          metrics = (''$5.24'', ''0.82'')\<rparr>),
      (''decision_tree'',
         \<lparr>file_name = ''decision_tree_model.pkl'', available = False,
          metrics = (''$4.12'', ''0.86'')\<rparr>),
      (''random_forest'',
         \<lparr>file_name = ''random_forest_model.pkl'', available = False,
          metrics = (''$3.42'', ''0.91'')\<rparr>),
      (''xgboost'',
         \<lparr>file_name = ''xgboost_model.pkl'', available = False,
          metrics = (''$3.56'', ''0.90'')\<rparr>)]"

definition get_model_info :: "(string \<Rightarrow> regressor option) \<Rightarrow> (string \<times> model_info) list" where
  "get_model_info dsk =
     map (\<lambda>(name, info). (name, info\<lparr>available := (dsk (file_name info) \<noteq> None)\<rparr>)) model_table"

subsection \<open>predict\<close>

definition required_fields :: "string list" where
  "required_fields =
     [''pickup_latitude'', ''pickup_longitude'',
      ''dropoff_latitude'', ''dropoff_longitude'',
      ''pickup_datetime'']"

text \<open>The validation loop: the first field of the list that is not a key of the object.\<close>

fun first_missing :: "string list \<Rightarrow> (string \<rightharpoonup> jval) \<Rightarrow> string option" where
  "first_missing [] d = None"
| "first_missing (field # rest) d =
     (if d field = None then Some field else first_missing rest d)"

text \<open>\<^verbatim>\<open>d[k]\<close> raises a KeyError when the key is absent.\<close>

definition subscript :: "(string \<rightharpoonup> jval) \<Rightarrow> string \<Rightarrow> exn + jval" where
  "subscript d k = (case d k of None \<Rightarrow> Inl (KeyError k) | Some v \<Rightarrow> Inr v)"

text \<open>
  Both routes call \<^verbatim>\<open>create_features\<close> on the five subscripts of the object, evaluated
  from left to right.
\<close>

definition features_of :: "env \<Rightarrow> (string \<rightharpoonup> jval) \<Rightarrow> exn + real list" where
  "features_of W d =
     (case subscript d ''pickup_latitude'' of Inl e \<Rightarrow> Inl e | Inr plat \<Rightarrow>
     (case subscript d ''pickup_longitude'' of Inl e \<Rightarrow> Inl e | Inr plon \<Rightarrow>
     (case subscript d ''dropoff_latitude'' of Inl e \<Rightarrow> Inl e | Inr dlat \<Rightarrow>
     (case subscript d ''dropoff_longitude'' of Inl e \<Rightarrow> Inl e | Inr dlon \<Rightarrow>
     (case subscript d ''pickup_datetime'' of Inl e \<Rightarrow> Inl e | Inr dt \<Rightarrow>
        create_features W plat plon dlat dlon dt)))))"

text \<open>The distance reported by \<^verbatim>\<open>predict\<close>, from the four coordinate subscripts.\<close>

definition distance_of :: "(string \<rightharpoonup> jval) \<Rightarrow> exn + real" where
  "distance_of d =
     (case subscript d ''pickup_latitude'' of Inl e \<Rightarrow> Inl e | Inr plat \<Rightarrow>
     (case subscript d ''pickup_longitude'' of Inl e \<Rightarrow> Inl e | Inr plon \<Rightarrow>
     (case subscript d ''dropoff_latitude'' of Inl e \<Rightarrow> Inl e | Inr dlat \<Rightarrow>
     (case subscript d ''dropoff_longitude'' of Inl e \<Rightarrow> Inl e | Inr dlon \<Rightarrow>
        haversine_distance plat plon dlat dlon))))"

text \<open>\<^verbatim>\<open>data.get('model', 'random_forest')\<close>.\<close>

definition model_name_of :: "request \<Rightarrow> string" where
  "model_name_of data = (case model data of Some n \<Rightarrow> n | None \<Rightarrow> ''random_forest'')"

text \<open>
  The part of the \<^verbatim>\<open>try\<close> block after the model is resolved. Calling \<^verbatim>\<open>predict\<close> on
  \<^verbatim>\<open>None\<close> raises an AttributeError. Every exception ends in the handler, with 500.
\<close>

definition predict_with :: "env \<Rightarrow> request \<Rightarrow> string \<Rightarrow> regressor option \<Rightarrow> response" where
  "predict_with W data model_name mdl =
     (case features_of W (entries data) of
        Inl e \<Rightarrow> (Error (StrOf e), 500)
      | Inr features \<Rightarrow>
          (case mdl of
             None \<Rightarrow> (Error (StrOf AttributeError), 500)
           | Some m \<Rightarrow>
               (case m features of
                  Inl msg \<Rightarrow> (Error (StrOf (InferenceError msg)), 500)
                | Inr raw \<Rightarrow>
                    (let prediction = py_max0 raw
                     in (case distance_of (entries data) of
                           Inl e \<Rightarrow> (Error (StrOf e), 500)
                         | Inr km \<Rightarrow>
                             (Fare (py_round2 prediction) model_name (round2 km), 200))))))"

definition predict :: "env \<Rightarrow> cache \<Rightarrow> request \<Rightarrow> response \<times> cache" where
  "predict W models data =
     (case first_missing required_fields (entries data) of
        Some field \<Rightarrow> ((Error (Text (''Missing required field: '' @ field)), 400), models)
      | None \<Rightarrow>
          (let model_name = model_name_of data;
               (mdl, models1) = load_model (disk W) models model_name
           in case mdl of
                Some m \<Rightarrow> (predict_with W data model_name mdl, models1)
              | None \<Rightarrow>
                  (let available_models =
                         map fst (filter (\<lambda>(k, v). available v) (get_model_info (disk W)))
                   in case available_models of
                        first # others \<Rightarrow>
                          (let (mdl2, models2) = load_model (disk W) models1 first
                           in (predict_with W data first mdl2, models2))
                      | [] \<Rightarrow>
                          ((Error (Text ''No models available for prediction''), 500),
                           models1))))"

subsection \<open>batch_predict\<close>

text \<open>
  The model of one item: the requested one when \<^verbatim>\<open>load_model\<close> returns it, and
  otherwise whatever \<^verbatim>\<open>load_model('linear_regression')\<close> returns, \<^verbatim>\<open>None\<close> included.
\<close>

definition batch_resolve :: "env \<Rightarrow> cache \<Rightarrow> request \<Rightarrow> string \<times> regressor option \<times> cache" where
  "batch_resolve W models item =
     (let model_name = model_name_of item;
          (mdl, models1) = load_model (disk W) models model_name
      in case mdl of
           None \<Rightarrow>
             (let (mdl', models2) = load_model (disk W) models1 ''linear_regression''
              in (''linear_regression'', mdl', models2))
         | Some m \<Rightarrow> (model_name, mdl, models1))"

text \<open>The body of the loop: one item, with its own handler.\<close>

definition batch_item :: "env \<Rightarrow> cache \<Rightarrow> request \<Rightarrow> entry \<times> cache" where
  "batch_item W models item =
     (case features_of W (entries item) of
        Inl e \<Rightarrow> (ErrorEntry e, models)
      | Inr features \<Rightarrow>
          (let (model_name, mdl, models') = batch_resolve W models item
           in case mdl of
                None \<Rightarrow> (ErrorEntry AttributeError, models')
              | Some m \<Rightarrow>
                  (case m features of
                     Inl msg \<Rightarrow> (ErrorEntry (InferenceError msg), models')
                   | Inr raw \<Rightarrow>
                       (ResultEntry (py_round2 (py_max0 raw)) model_name, models'))))"

text \<open>The loop, with the list \<^verbatim>\<open>results\<close> and the cache as its state.\<close>

fun batch_loop :: "env \<Rightarrow> entry list \<times> cache \<Rightarrow> request list \<Rightarrow> entry list \<times> cache" where
  "batch_loop W (results, models) [] = (results, models)"
| "batch_loop W (results, models) (item # rest) =
     (let (r, models') = batch_item W models item
      in batch_loop W (results @ [r], models') rest)"

definition batch_predict :: "env \<Rightarrow> cache \<Rightarrow> batch_request \<Rightarrow> batch_response \<times> cache" where
  "batch_predict W models data =
     (case predictions data of
        None \<Rightarrow> ((BatchError ''Missing predictions array'', 400), models)
      | Some items \<Rightarrow>
          (let (results, models') = batch_loop W ([], models) items
           in ((Results results, 200), models')))"


subsection \<open>Sample data\<close>

text \<open>
  A stand-in for the timestamp parser that knows one timestamp (15 June 2024 is a
  Saturday), regressors that return a constant whatever the features are, model
  directories given by their list of files, and a trip from and to New York City Hall.
\<close>

definition sample_to_datetime :: "jval \<Rightarrow> timestamp option" where
  "sample_to_datetime v =
     (if v = JStr ''2024-06-15T08:30:00''
      then Some \<lparr>hour = 8, dayofweek = 5, month = 6, year = 2024\<rparr>
      else None)"

definition const_model :: "real \<Rightarrow> regressor" where
  "const_model x = (\<lambda>features. Inr (Fin x))"

definition trip :: "jval \<Rightarrow> string option \<Rightarrow> request" where
  "trip dt name =
     \<lparr>entries = [''pickup_latitude'' \<mapsto> JNum 40.7128, ''pickup_longitude'' \<mapsto> JNum (-74.0060),
                 ''dropoff_latitude'' \<mapsto> JNum 40.7128, ''dropoff_longitude'' \<mapsto> JNum (-74.0060),
                 ''pickup_datetime'' \<mapsto> dt],
      model = name\<rparr>"

definition sample_env :: "(string \<times> regressor) list \<Rightarrow> env" where
  "sample_env files = \<lparr>to_datetime = sample_to_datetime, disk = map_of files\<rparr>"

section \<open>Auxiliary facts\<close>

subsection \<open>Numbers and the distance\<close>

text \<open>
  Over the reals the term under the square roots of the haversine formula stays between
  0 and 1, for all angles, so both roots are of numbers that are not negative. Nothing is
  derived here about the rounded arithmetic of the implementation.
\<close>

lemma haversine_term_bounds:
  fixes x y d :: real
  defines "a \<equiv> (sin ((y - x) / 2))\<^sup>2 + cos x * cos y * (sin (d / 2))\<^sup>2"
  shows "0 \<le> a \<and> a \<le> 1"
proof -
  define s where "s = (sin (d / 2))\<^sup>2"
  define A where "A = (sin ((y - x) / 2))\<^sup>2"
  define B where "B = (cos ((x + y) / 2))\<^sup>2"
  have s: "0 \<le> s" "s \<le> 1" and A: "0 \<le> A" "A \<le> 1" and B: "0 \<le> B" "B \<le> 1"
    by (simp_all add: s_def A_def B_def abs_square_le_1)
  have h1: "2 * ((y - x) / 2) = y - x" and h2: "2 * ((x + y) / 2) = x + y" by simp_all
  have "cos (y - x) = 1 - 2 * A"
    using cos_double_sin [of "(y - x) / 2"] by (simp only: h1 A_def)
  moreover have "cos (x + y) = 2 * B - 1"
    using cos_double_cos [of "(x + y) / 2"] by (simp only: h2 B_def)
  ultimately have "cos y * cos x + sin y * sin x = 1 - 2 * A"
    "cos x * cos y - sin x * sin y = 2 * B - 1"
    by (simp_all only: cos_add cos_diff)
  then have "A + cos x * cos y = B"
    by (simp add: mult.commute)
  then have c: "cos x * cos y = B - A" by simp
  have "a = A + (B - A) * s"
    by (simp only: a_def A_def s_def c)
  then have a: "a = A * (1 - s) + B * s"
    by (simp add: algebra_simps)
  have "0 \<le> A * (1 - s)" "0 \<le> B * s" using s A B by simp_all
  then have lo: "0 \<le> a" by (simp add: a)
  have "A * (1 - s) \<le> 1 * (1 - s)" using A s by (intro mult_right_mono) simp_all
  moreover have "B * s \<le> 1 * s" using B s by (intro mult_right_mono) simp_all
  ultimately have "a \<le> 1" by (simp add: a)
  with lo show ?thesis by simp
qed

lemma haversine_same_point: "haversine a b a b = 0"
  by (simp add: haversine_def arctan2_def Let_def)

lemma haversine_distance_Inl:
  "haversine_distance a b c d = Inl e \<Longrightarrow> e = TypeError"
  by (auto simp: haversine_distance_def split: option.splits)




subsection \<open>The cache\<close>

lemma load_model_hit: "models n = Some m \<Longrightarrow> load_model dsk models n = (Some m, models)"
  by (simp add: load_model_def)

lemma load_model_miss_present:
  "models n = None \<Longrightarrow> dsk (model_file n) = Some m \<Longrightarrow> load_model dsk models n = (Some m, models(n \<mapsto> m))"
  by (simp add: load_model_def)





subsection \<open>Validation and features\<close>

lemma first_missing_None_iff:
  "first_missing fs d = None \<longleftrightarrow> (\<forall>f \<in> set fs. d f \<noteq> None)"
  by (induction fs) auto

lemma first_missing_first:
  "\<exists>f \<in> set fs. d f = None \<Longrightarrow>
   \<exists>i < length fs. first_missing fs d = Some (fs ! i) \<and> d (fs ! i) = None
      \<and> (\<forall>j < i. d (fs ! j) \<noteq> None)"
proof (induction fs)
  case Nil
  then show ?case by simp
next
  case (Cons f fs)
  show ?case
  proof (cases "d f = None")
    case True
    then have "first_missing (f # fs) d = Some ((f # fs) ! 0) \<and> d ((f # fs) ! 0) = None
        \<and> (\<forall>j < 0. d ((f # fs) ! j) \<noteq> None)" by simp
    then show ?thesis by blast
  next
    case False
    with Cons.prems have "\<exists>g \<in> set fs. d g = None" by auto
    from Cons.IH [OF this] obtain i where i: "i < length fs"
      "first_missing fs d = Some (fs ! i)" "d (fs ! i) = None" "\<forall>j < i. d (fs ! j) \<noteq> None"
      by blast
    have "\<forall>j < Suc i. d ((f # fs) ! j) \<noteq> None"
    proof (intro allI impI)
      fix j assume "j < Suc i"
      then show "d ((f # fs) ! j) \<noteq> None"
        using False i(4) by (cases j) auto
    qed
    moreover from False have "first_missing (f # fs) d = first_missing fs d" by auto
    ultimately have "Suc i < length (f # fs) \<and> first_missing (f # fs) d = Some ((f # fs) ! Suc i)
       \<and> d ((f # fs) ! Suc i) = None \<and> (\<forall>j < Suc i. d ((f # fs) ! j) \<noteq> None)"
      using i(1,2,3) by simp
    then show ?thesis by blast
  qed
qed

lemma create_features_Inr:
  assumes "create_features W a b c d t = Inr fs"
  shows "\<exists>ts dist x1 x2 x3 x4. to_datetime W t = Some ts \<and>
     fs = [dist, of_int (hour ts), of_int (dayofweek ts),
                         of_int (month ts), of_int (year ts),
                         x1, x2, x3, x4,
                         of_int (is_morning (hour ts)), of_int (is_afternoon (hour ts)),
                         of_int (is_evening (hour ts)), of_int (is_night (hour ts)),
                         of_int (is_weekend (dayofweek ts)),
                         of_int (is_rush_hour (hour ts)), of_int (is_peak_hour (hour ts))]"
  using assms
  by (auto simp: create_features_def split: sum.splits option.splits)


lemma features_of_bad_timestamp:
  assumes "\<forall>f \<in> set required_fields. d f \<noteq> None"
    and "d ''pickup_datetime'' = Some t"
    and "to_datetime W t = None"
  shows "features_of W d = Inl TypeError \<or> features_of W d = Inl DateParseError"
  using assms
  by (auto simp: required_fields_def features_of_def subscript_def create_features_def
      split: sum.splits option.splits dest: haversine_distance_Inl)

subsection \<open>The single prediction\<close>

lemma predict_with_features_error:
  "features_of W (entries data) = Inl e \<Longrightarrow> predict_with W data n mdl = (Error (StrOf e), 500)"
  by (simp add: predict_with_def)



lemma predict_present_cases:
  assumes "first_missing required_fields (entries data) = None"
  shows "fst (predict W models data) = (Error (Text ''No models available for prediction''), 500)
       \<or> (\<exists>n mdl. fst (predict W models data) = predict_with W data n mdl)"
  using assms
  by (auto simp: predict_def Let_def split: option.splits prod.splits list.splits)


subsection \<open>The batch loop\<close>









subsection \<open>Unfolding the sample data\<close>


lemmas run_defs =
  predict_def required_fields_def trip_def load_model_def model_file_def
  sample_env_def predict_with_def features_of_def subscript_def create_features_def
  haversine_distance_def haversine_same_point sample_to_datetime_def distance_of_def const_model_def
  round2_def round_half_even_def get_model_info_def model_table_def
  batch_predict_def batch_item_def batch_resolve_def model_name_of_def Let_def

section \<open>The claims\<close>

text \<open>
  Claim C8. \<^verbatim>\<open>load_model\<close> returns the cached instance whatever the model directory
  holds when the identifier is cached, and leaves the cache as it is. On a miss with the
  artifact present it returns the regressor of the artifact and stores it under the
  identifier. On a miss with the artifact absent it returns \<open>None\<close>, it has no other
  outcome, and the cache is unchanged: a load from the resulting cache, once the artifact
  is there, succeeds.
\<close>

theorem load_model_contract:
  "(models n = Some m \<longrightarrow> (\<forall>dsk'. load_model dsk' models n = (Some m, models)))
   \<and> (models n = None \<and> dsk (model_file n) = Some m \<longrightarrow>
        load_model dsk models n = (Some m, models(n \<mapsto> m)))
   \<and> (models n = None \<and> dsk (model_file n) = None \<longrightarrow>
        load_model dsk models n = (None, models)
        \<and> (\<forall>dsk' m'. dsk' (model_file n) = Some m' \<longrightarrow>
              load_model dsk' (snd (load_model dsk models n)) n = (Some m', models(n \<mapsto> m'))))"
  by (simp add: load_model_def)

theorem load_model_contract_witness:
  "[''xgboost'' \<mapsto> const_model 7] ''xgboost'' = Some (const_model 7)
   \<and> load_model (\<lambda>f. None) [''xgboost'' \<mapsto> const_model 7] ''xgboost''
       = (Some (const_model 7), [''xgboost'' \<mapsto> const_model 7])
   \<and> (Map.empty :: cache) ''xgboost'' = None
   \<and> map_of [(''xgboost_model.pkl'', const_model 7)] (model_file ''xgboost'') = Some (const_model 7)
   \<and> load_model (map_of [(''xgboost_model.pkl'', const_model 7)]) Map.empty ''xgboost''
       = (Some (const_model 7), [''xgboost'' \<mapsto> const_model 7])
   \<and> load_model (\<lambda>f. None) Map.empty ''xgboost'' = (None, Map.empty)
   \<and> load_model (map_of [(''xgboost_model.pkl'', const_model 7)])
         (snd (load_model (\<lambda>f. None) Map.empty ''xgboost'')) ''xgboost''
       = (Some (const_model 7), [''xgboost'' \<mapsto> const_model 7])"
  using load_model_contract [of "[''xgboost'' \<mapsto> const_model 7]" "''xgboost''" "const_model 7" "\<lambda>f. None"]
    load_model_contract [of "Map.empty" "''xgboost''" "const_model 7"
      "map_of [(''xgboost_model.pkl'', const_model 7)]"]
    load_model_contract [of "Map.empty" "''xgboost''" "const_model 7" "\<lambda>f. None"]
  by (simp add: model_file_def)

text \<open>
  Claim C4. When one of the five required fields is absent, \<^verbatim>\<open>predict\<close> answers 400
  with the message naming the first absent field in the order pickup_latitude,
  pickup_longitude, dropoff_latitude, dropoff_longitude, pickup_datetime. The answer is
  the same for every model directory and parser, and the cache is returned unchanged:
  no model is loaded.
\<close>

theorem predict_missing_field:
  assumes "\<exists>f \<in> set [''pickup_latitude'', ''pickup_longitude'', ''dropoff_latitude'',
                       ''dropoff_longitude'', ''pickup_datetime'']. entries data f = None"
  shows "\<exists>i < 5.
           entries data ([''pickup_latitude'', ''pickup_longitude'', ''dropoff_latitude'',
                          ''dropoff_longitude'', ''pickup_datetime''] ! i) = None
         \<and> (\<forall>j < i. entries data ([''pickup_latitude'', ''pickup_longitude'',
                          ''dropoff_latitude'', ''dropoff_longitude'', ''pickup_datetime''] ! j)
                        \<noteq> None)
         \<and> (\<forall>W. predict W models data =
               ((Error (Text (''Missing required field: '' @
                   [''pickup_latitude'', ''pickup_longitude'', ''dropoff_latitude'',
                    ''dropoff_longitude'', ''pickup_datetime''] ! i)), 400), models))"
proof -
  from assms have "\<exists>f \<in> set required_fields. entries data f = None"
    by (simp only: required_fields_def)
  from first_missing_first [OF this] obtain i where i: "i < length required_fields"
    "first_missing required_fields (entries data) = Some (required_fields ! i)"
    "entries data (required_fields ! i) = None"
    "\<forall>j < i. entries data (required_fields ! j) \<noteq> None"
    by blast
  have "\<forall>W. predict W models data =
      ((Error (Text (''Missing required field: '' @ required_fields ! i)), 400), models)"
    by (simp add: predict_def i(2))
  with i show ?thesis
    unfolding required_fields_def by (intro exI [of _ i]) simp
qed

theorem predict_missing_field_witness:
  "(\<exists>f \<in> set [''pickup_latitude'', ''pickup_longitude'', ''dropoff_latitude'',
                ''dropoff_longitude'', ''pickup_datetime''].
       entries \<lparr>entries = [''pickup_latitude'' \<mapsto> JNum 40.7128, ''pickup_longitude'' \<mapsto> JNum (-74.0060),
                           ''dropoff_latitude'' \<mapsto> JNum 40.7589, ''dropoff_longitude'' \<mapsto> JNum (-73.9851)],
                model = None\<rparr> f = None)
   \<and> predict (sample_env [(''random_forest_model.pkl'', const_model 12)]) Map.empty
        \<lparr>entries = [''pickup_latitude'' \<mapsto> JNum 40.7128, ''pickup_longitude'' \<mapsto> JNum (-74.0060),
                    ''dropoff_latitude'' \<mapsto> JNum 40.7589, ''dropoff_longitude'' \<mapsto> JNum (-73.9851)],
         model = None\<rparr>
      = ((Error (Text ''Missing required field: pickup_datetime''), 400), Map.empty)"
proof -
  let ?d = "\<lparr>entries = [''pickup_latitude'' \<mapsto> JNum 40.7128, ''pickup_longitude'' \<mapsto> JNum (-74.0060),
                       ''dropoff_latitude'' \<mapsto> JNum 40.7589, ''dropoff_longitude'' \<mapsto> JNum (-73.9851)],
            model = None\<rparr>"
  have h: "\<exists>f \<in> set [''pickup_latitude'', ''pickup_longitude'', ''dropoff_latitude'',
                ''dropoff_longitude'', ''pickup_datetime'']. entries ?d f = None"
    by simp
  from predict_missing_field [OF h, of Map.empty] obtain i where i: "i < 5"
    "entries ?d ([''pickup_latitude'', ''pickup_longitude'', ''dropoff_latitude'',
                          ''dropoff_longitude'', ''pickup_datetime''] ! i) = None"
    "\<forall>W. predict W Map.empty ?d =
               ((Error (Text (''Missing required field: '' @
                   [''pickup_latitude'', ''pickup_longitude'', ''dropoff_latitude'',
                    ''dropoff_longitude'', ''pickup_datetime''] ! i)), 400), Map.empty)"
    by blast
  from i(1) have "i = 0 \<or> i = 1 \<or> i = 2 \<or> i = 3 \<or> i = 4" by arith
  with i(2) have "i = 4" by auto
  with i(3) h show ?thesis by simp
qed

text \<open>
  Claim C6. For a timestamp whose hour is in 0..23, the entries 9 to 15 of the feature row
  are the seven indicators: each is 0 or 1, each is 1 exactly on the hours (or days) of
  the claim, and exactly one of is_morning, is_afternoon, is_evening, is_night is 1.
\<close>

theorem time_indicators:
  assumes "create_features W plat plon dlat dlon t = Inr fs"
    and "to_datetime W t = Some ts"
    and "hour ts \<in> {0..23}"
  shows "length fs = 16
    \<and> (fs ! 9 = 1 \<longleftrightarrow> 6 \<le> hour ts \<and> hour ts < 12)
    \<and> (fs ! 10 = 1 \<longleftrightarrow> 12 \<le> hour ts \<and> hour ts < 18)
    \<and> (fs ! 11 = 1 \<longleftrightarrow> 18 \<le> hour ts \<and> hour ts < 22)
    \<and> (fs ! 12 = 1 \<longleftrightarrow> (22 \<le> hour ts \<and> hour ts < 24) \<or> (0 \<le> hour ts \<and> hour ts < 6))
    \<and> (fs ! 13 = 1 \<longleftrightarrow> 5 \<le> dayofweek ts)
    \<and> (fs ! 14 = 1 \<longleftrightarrow> (7 \<le> hour ts \<and> hour ts < 10) \<or> (16 \<le> hour ts \<and> hour ts < 19))
    \<and> (fs ! 15 = 1 \<longleftrightarrow> hour ts \<in> {8, 9, 17, 18, 19, 20})
    \<and> (\<forall>k \<in> {9..15}. fs ! k = 0 \<or> fs ! k = 1)
    \<and> fs ! 9 + fs ! 10 + fs ! 11 + fs ! 12 = 1"
proof -
  from create_features_Inr [OF assms(1)] assms(2) obtain dist x1 x2 x3 x4 where
    fs: "fs = [dist, of_int (hour ts), of_int (dayofweek ts),
                         of_int (month ts), of_int (year ts),
                         x1, x2, x3, x4,
                         of_int (is_morning (hour ts)), of_int (is_afternoon (hour ts)),
                         of_int (is_evening (hour ts)), of_int (is_night (hour ts)),
                         of_int (is_weekend (dayofweek ts)),
                         of_int (is_rush_hour (hour ts)), of_int (is_peak_hour (hour ts))]"
    by auto
  have n: "fs ! 9 = of_int (is_morning (hour ts))" "fs ! 10 = of_int (is_afternoon (hour ts))"
    "fs ! 11 = of_int (is_evening (hour ts))" "fs ! 12 = of_int (is_night (hour ts))"
    "fs ! 13 = of_int (is_weekend (dayofweek ts))" "fs ! 14 = of_int (is_rush_hour (hour ts))"
    "fs ! 15 = of_int (is_peak_hour (hour ts))" "length fs = 16"
    by (simp_all add: fs)
  have r: "0 \<le> hour ts" "hour ts < 24" using assms(3) by auto
  have k: "{9..15::nat} = {9, 10, 11, 12, 13, 14, 15}" by auto
  have a: "fs ! 9 = 1 \<longleftrightarrow> 6 \<le> hour ts \<and> hour ts < 12"
    by (simp add: n is_morning_def)
  have b: "fs ! 10 = 1 \<longleftrightarrow> 12 \<le> hour ts \<and> hour ts < 18"
    by (simp add: n is_afternoon_def)
  have c: "fs ! 11 = 1 \<longleftrightarrow> 18 \<le> hour ts \<and> hour ts < 22"
    by (simp add: n is_evening_def)
  have d: "fs ! 12 = 1 \<longleftrightarrow> (22 \<le> hour ts \<and> hour ts < 24) \<or> (0 \<le> hour ts \<and> hour ts < 6)"
    using r by (simp add: n is_night_def)
  have e: "fs ! 13 = 1 \<longleftrightarrow> 5 \<le> dayofweek ts"
    by (simp add: n is_weekend_def)
  have f: "fs ! 14 = 1 \<longleftrightarrow> (7 \<le> hour ts \<and> hour ts < 10) \<or> (16 \<le> hour ts \<and> hour ts < 19)"
    by (simp add: n is_rush_hour_def)
  have g: "fs ! 15 = 1 \<longleftrightarrow> hour ts \<in> {8, 9, 17, 18, 19, 20}"
    by (simp add: n is_peak_hour_def)
  have h: "\<forall>k \<in> {9..15}. fs ! k = 0 \<or> fs ! k = 1"
    unfolding k
    by (simp add: n is_morning_def is_afternoon_def is_evening_def is_night_def
        is_weekend_def is_rush_hour_def is_peak_hour_def)
  have s: "fs ! 9 + fs ! 10 + fs ! 11 + fs ! 12 = 1"
    by (simp add: n is_morning_def is_afternoon_def is_evening_def is_night_def)
  from n(8) a b c d e f g h s show ?thesis by blast
qed

theorem time_indicators_witness:
  "create_features (sample_env []) (JNum 40.7128) (JNum (-74.0060)) (JNum 40.7128) (JNum (-74.0060))
      (JStr ''2024-06-15T08:30:00'')
     = Inr [0, 8, 5, 6, 2024, 40.7128, -74.0060, 40.7128, -74.0060, 1, 0, 0, 0, 1, 1, 1]
   \<and> to_datetime (sample_env []) (JStr ''2024-06-15T08:30:00'')
       = Some \<lparr>hour = 8, dayofweek = 5, month = 6, year = 2024\<rparr>
   \<and> hour \<lparr>hour = 8, dayofweek = 5, month = 6, year = 2024\<rparr> \<in> {0..23}
   \<and> [0, 8, 5, 6, 2024, 40.7128, -74.0060, 40.7128, -74.0060, 1, 0, 0, 0, 1, 1, 1 :: real] ! 9 = 1
   \<and> [0, 8, 5, 6, 2024, 40.7128, -74.0060, 40.7128, -74.0060, 1, 0, 0, 0, 1, 1, 1 :: real] ! 9
     + [0, 8, 5, 6, 2024, 40.7128, -74.0060, 40.7128, -74.0060, 1, 0, 0, 0, 1, 1, 1 :: real] ! 10
     + [0, 8, 5, 6, 2024, 40.7128, -74.0060, 40.7128, -74.0060, 1, 0, 0, 0, 1, 1, 1 :: real] ! 11
     + [0, 8, 5, 6, 2024, 40.7128, -74.0060, 40.7128, -74.0060, 1, 0, 0, 0, 1, 1, 1 :: real] ! 12 = 1"
proof -
  have h1: "create_features (sample_env []) (JNum 40.7128) (JNum (-74.0060)) (JNum 40.7128)
      (JNum (-74.0060)) (JStr ''2024-06-15T08:30:00'')
     = Inr [0, 8, 5, 6, 2024, 40.7128, -74.0060, 40.7128, -74.0060, 1, 0, 0, 0, 1, 1, 1]"
    by (simp add: create_features_def haversine_distance_def haversine_same_point sample_env_def
        sample_to_datetime_def is_morning_def is_afternoon_def is_evening_def is_night_def
        is_weekend_def is_rush_hour_def is_peak_hour_def)
  have h2: "to_datetime (sample_env []) (JStr ''2024-06-15T08:30:00'')
       = Some \<lparr>hour = 8, dayofweek = 5, month = 6, year = 2024\<rparr>"
    by (simp add: sample_env_def sample_to_datetime_def)
  have h3: "hour \<lparr>hour = 8, dayofweek = 5, month = 6, year = 2024\<rparr> \<in> {0..23}"
    by simp
  from time_indicators [OF h1 h2 h3] h1 h2 h3 show ?thesis by simp
qed



text \<open>
  Claim C1, as amended. When the five required fields are present and the timestamp
  does not parse, \<^verbatim>\<open>predict\<close> answers with an error body and status 500, the status of
  its server-side failures: the body is the text of the exception caught by the handler
  (the parser's, or numpy's when a coordinate is not a number), or the message that no
  model is available.
\<close>

theorem predict_bad_timestamp:
  assumes "\<forall>f \<in> set [''pickup_latitude'', ''pickup_longitude'', ''dropoff_latitude'',
                       ''dropoff_longitude'', ''pickup_datetime'']. entries data f \<noteq> None"
    and "entries data ''pickup_datetime'' = Some t"
    and "to_datetime W t = None"
  shows "\<exists>msg. fst (predict W models data) = (Error msg, 500)
           \<and> (msg = Text ''No models available for prediction''
              \<or> msg = StrOf TypeError \<or> msg = StrOf DateParseError)"
proof -
  from assms(1) have p: "\<forall>f \<in> set required_fields. entries data f \<noteq> None"
    by (simp only: required_fields_def)
  then have nm: "first_missing required_fields (entries data) = None"
    by (simp only: first_missing_None_iff)
  from features_of_bad_timestamp [OF p assms(2,3)]
  have "\<exists>e. features_of W (entries data) = Inl e \<and> (e = TypeError \<or> e = DateParseError)"
    by blast
  then obtain e where e: "features_of W (entries data) = Inl e" "e = TypeError \<or> e = DateParseError"
    by blast
  from predict_present_cases [OF nm, of W models] show ?thesis
  proof
    assume "fst (predict W models data) = (Error (Text ''No models available for prediction''), 500)"
    then show ?thesis by blast
  next
    assume "\<exists>n mdl. fst (predict W models data) = predict_with W data n mdl"
    then obtain n mdl where "fst (predict W models data) = predict_with W data n mdl" by blast
    with predict_with_features_error [OF e(1)]
    have "fst (predict W models data) = (Error (StrOf e), 500)" by simp
    with e(2) show ?thesis by blast
  qed
qed

theorem predict_bad_timestamp_witness:
  "entries (trip (JStr ''15/06 at half past eight'') None) ''pickup_latitude'' \<noteq> None
   \<and> entries (trip (JStr ''15/06 at half past eight'') None) ''pickup_longitude'' \<noteq> None
   \<and> entries (trip (JStr ''15/06 at half past eight'') None) ''dropoff_latitude'' \<noteq> None
   \<and> entries (trip (JStr ''15/06 at half past eight'') None) ''dropoff_longitude'' \<noteq> None
   \<and> entries (trip (JStr ''15/06 at half past eight'') None) ''pickup_datetime''
       = Some (JStr ''15/06 at half past eight'')
   \<and> to_datetime (sample_env [(''xgboost_model.pkl'', const_model 30)])
         (JStr ''15/06 at half past eight'') = None
   \<and> (\<exists>msg. fst (predict (sample_env [(''xgboost_model.pkl'', const_model 30)]) Map.empty
                     (trip (JStr ''15/06 at half past eight'') None)) = (Error msg, 500))"
proof -
  let ?t = "JStr ''15/06 at half past eight''"
  let ?W = "sample_env [(''xgboost_model.pkl'', const_model 30)]"
  have h1: "\<forall>f \<in> set [''pickup_latitude'', ''pickup_longitude'', ''dropoff_latitude'',
      ''dropoff_longitude'', ''pickup_datetime'']. entries (trip ?t None) f \<noteq> None"
    by (simp add: trip_def)
  have h2: "entries (trip ?t None) ''pickup_datetime'' = Some ?t"
    by (simp add: trip_def)
  have h3: "to_datetime ?W ?t = None"
    by (simp add: sample_env_def sample_to_datetime_def)
  from predict_bad_timestamp [OF h1 h2 h3, of Map.empty]
  have "\<exists>msg. fst (predict ?W Map.empty (trip ?t None)) = (Error msg, 500)"
    by blast
  with h1 h2 h3 show ?thesis by simp
qed

text \<open>
  Claim C1 as stated fails: an unparseable timestamp is answered with 500, as is the
  absence of every model, while a missing field is answered with 400.
\<close>

theorem bad_timestamp_is_500_counterexample:
  "fst (predict (sample_env [(''random_forest_model.pkl'', const_model 12)]) Map.empty
          (trip (JStr ''not a timestamp'') None))
     = (Error (StrOf DateParseError), 500)
   \<and> fst (predict (sample_env []) Map.empty (trip (JStr ''2024-06-15T08:30:00'') None))
     = (Error (Text ''No models available for prediction''), 500)
   \<and> fst (predict (sample_env [(''random_forest_model.pkl'', const_model 12)]) Map.empty
          \<lparr>entries = Map.empty, model = None\<rparr>)
     = (Error (Text ''Missing required field: pickup_latitude''), 400)"
  by (simp add: run_defs)










end
